theory Spec2Isabelle
  imports
    Complex_Main
    "HOL-Library.Char_ord"
    "HOL-Library.List_Lexorder"
    "HOL-Library.Product_Lexorder"
    "HOL-Library.Multiset"
begin

section \<open>The FPL team selection dashboard (fpl\_dashboard.py)\<close>

text \<open>
  The dashboard is a Streamlit script: every user interaction reruns it from the top
  with the current widget values and the session state of the previous run. One run
  is modelled as a function of
  \<^item> the environment: the import of \<open>fpl_team_selector\<close>, the file system and the JSON
    parser;
  \<^item> the widget values the user has set;
  \<^item> the session state left by the previous run.
  It returns the session state it leaves, the elements it has put on the page below the
  page header, the calls it has made to the team selector, and the exception that left
  the script, if one did.

  Python floats are modelled as rationals: the script only compares them with 0, passes
  them on and formats them, and a formatted number is kept as the number with its format.
  Exceptions are the subclasses of \<open>Exception\<close>, as values carrying their class and
  \<open>str(e)\<close>. Strings are byte strings in UTF-8; the symbols of the source's literals
  outside ASCII are written as their bytes.
\<close>

subsection \<open>Exceptions\<close>

datatype exn = Exn (exn_class: string) (exn_str: string)

text \<open>\<open>KeyError(k)\<close> for a string key: \<open>str(e)\<close> is the \<open>repr\<close> of the key.\<close>

definition KeyError :: "string \<Rightarrow> exn" where
  "KeyError k = Exn ''KeyError'' ([CHR 0x27] @ k @ [CHR 0x27])"

definition AttributeError :: "string \<Rightarrow> exn" where
  "AttributeError msg = Exn ''AttributeError'' msg"

subsection \<open>load\_player\_pics\<close>

text \<open>
  A parsed JSON document, as \<open>json.load\<close> returns it: \<open>None\<close>, a boolean, an int, a float,
  a string, a list or a dict.
\<close>

datatype json =
    JNull
  | JBool bool
  | JInt int
  | JFloat rat
  | JStr string
  | JArr "json list"
  | JObj "(string \<times> json) list"

text \<open>
  The file system and the JSON parser, as far as \<open>load_player_pics\<close> uses them:
  \<open>Path.exists\<close>, \<open>open\<close> with reading the text, and \<open>json.load\<close> on that
  text. Each can raise.
\<close>

record filesystem =
  path_exists :: "string \<Rightarrow> exn + bool"
  read_text :: "string \<Rightarrow> exn + string"
  json_load :: "string \<Rightarrow> exn + json"

definition path_join :: "string \<Rightarrow> string \<Rightarrow> string" where
  "path_join d f = d @ ''/'' @ f"

text \<open>
  The body of \<open>load_player_pics\<close>; the source's \<open>try\<close> turns every exception
  into the empty dict. The decorator \<open>st.cache_data\<close> memoises the function on its
  argument and is not part of the model.
\<close>

definition load_player_pics :: "filesystem \<Rightarrow> string \<Rightarrow> json" where
  "load_player_pics fs data_dir =
     (let pics_path = path_join data_dir ''player_pics.json'' in
      case path_exists fs pics_path of
        Inl e \<Rightarrow> JObj []
      | Inr False \<Rightarrow> JObj []
      | Inr True \<Rightarrow>
          (case read_text fs pics_path of
             Inl e \<Rightarrow> JObj []
           | Inr txt \<Rightarrow>
               (case json_load fs txt of
                  Inl e \<Rightarrow> JObj []
                | Inr j \<Rightarrow> j)))"


subsection \<open>The sidebar widgets\<close>

text \<open>
  The values the widgets return in a run. \<open>optimize_button\<close> is the button the script
  only creates when \<open>auto_refresh\<close> is off.
\<close>

record widgets =
  objective :: string
  fixture_weighting :: rat
  last_season_weighting :: rat
  require_all_starts :: bool
  max_per_team_per_position :: bool
  exclude_injury_risk :: bool
  optimize_button :: bool

definition objective_options :: "string list" where
  "objective_options = [''max_points'', ''max_spend'']"

record slider =
  min_value :: rat
  max_value :: rat
  initial_value :: rat
  step :: rat

definition fixture_weighting_slider :: slider where
  "fixture_weighting_slider =
     \<lparr>min_value = 0, max_value = 1, initial_value = 0, step = 1 / 10\<rparr>"

definition last_season_weighting_slider :: slider where
  "last_season_weighting_slider =
     \<lparr>min_value = 0, max_value = 1, initial_value = 0, step = 1 / 10\<rparr>"

text \<open>
  What Streamlit promises of its widgets: a selectbox returns one of its options, a
  slider a value of its range that lies a whole number of steps above its minimum.
\<close>

definition selectbox_returns :: "string list \<Rightarrow> string \<Rightarrow> bool" where
  "selectbox_returns options v = (v \<in> set options)"

definition slider_returns :: "slider \<Rightarrow> rat \<Rightarrow> bool" where
  "slider_returns s v =
     (min_value s \<le> v \<and> v \<le> max_value s \<and>
      of_int \<lfloor>(v - min_value s) / step s\<rfloor> * step s = v - min_value s)"

definition widgets_in_bounds :: "widgets \<Rightarrow> bool" where
  "widgets_in_bounds w =
     (selectbox_returns objective_options (objective w) \<and>
      slider_returns fixture_weighting_slider (fixture_weighting w) \<and>
      slider_returns last_season_weighting_slider (last_season_weighting w))"

definition data_dir :: string where
  "data_dir = ''fpl_data''"

definition auto_refresh :: bool where
  "auto_refresh = True"

definition run_optimization :: "widgets \<Rightarrow> bool" where
  "run_optimization w = (if \<not> auto_refresh then optimize_button w else True)"

text \<open>
  The tuple \<open>current_params\<close>, as the list of its components. Its components have
  fixed types (str, float, float, bool, bool, bool, str), so Python's \<open>!=\<close> on two such
  tuples is inequality of the lists.
\<close>

datatype pyval = PStr string | PFloat rat | PBool bool

definition current_params :: "widgets \<Rightarrow> pyval list" where
  "current_params w =
     [PStr (objective w), PFloat (fixture_weighting w), PFloat (last_season_weighting w),
      PBool (require_all_starts w), PBool (max_per_team_per_position w),
      PBool (exclude_injury_risk w), PStr data_dir]"

subsection \<open>The records exchanged with the team selector\<close>

text \<open>
  A record of \<open>solution['selected_players']\<close>. The dashboard reads eight keys of every
  record; the four adjusted-points keys may be absent (\<open>None\<close>).
\<close>

record player =
  p_id :: int
  p_name :: string
  p_position :: string
  p_team_name :: string
  p_price :: rat
  p_proj_points :: rat
  p_avg_fixture_difficulty_5 :: rat
  p_next_5_fixtures :: string
  p_fixture_adjusted_points :: "rat option"
  p_current_points_per_gw :: "rat option"
  p_last_season_points_per_gw :: "rat option"
  p_last_season_adjusted_points :: "rat option"

text \<open>
  The solution dict, with the keys the dashboard reads and values of the types the
  solver gives them. A field is \<open>None\<close> when the dict lacks the key. The fields
  \<open>sol_fixture_weighting\<close> and \<open>sol_last_season_weighting\<close> are the keys
  \<open>'fixture_weighting'\<close> and \<open>'last_season_weighting'\<close>.
\<close>

record Solution =
  total_price :: "rat option"
  total_proj_points :: "rat option"
  avg_fixture_difficulty :: "rat option"
  solver_status :: "string option"
  sol_fixture_weighting :: "rat option"
  sol_last_season_weighting :: "rat option"
  total_fixture_adjusted_points :: "rat option"
  total_last_season_adjusted_points :: "rat option"
  selected_players :: "player list option"
  selected_ids :: "int list option"
  by_team_counts :: "(string \<times> int) list option"

definition empty_dict :: Solution where
  "empty_dict =
     \<lparr>total_price = None, total_proj_points = None, avg_fixture_difficulty = None,
      solver_status = None, sol_fixture_weighting = None, sol_last_season_weighting = None,
      total_fixture_adjusted_points = None, total_last_season_adjusted_points = None,
      selected_players = None, selected_ids = None, by_team_counts = None\<rparr>"

text \<open>\<open>if solution:\<close> is false for \<open>None\<close> and for the empty dict.\<close>

definition truthy :: "Solution option \<Rightarrow> bool" where
  "truthy r = (case r of None \<Rightarrow> False | Some sol \<Rightarrow> sol \<noteq> empty_dict)"

record ValidationReport =
  valid :: bool
  squad_size :: bool
  budget :: bool
  positions :: bool
  club_limits :: bool

text \<open>The keyword arguments of the call of \<open>solve_team_selection\<close>.\<close>

record solve_args =
  kw_objective :: string
  kw_require_all_starts :: bool
  kw_max_per_team_per_position :: bool
  kw_exclude_injury_risk :: bool
  kw_fixture_weighting :: rat
  kw_last_season_weighting :: rat

text \<open>
  An \<open>FPLTeamSelector\<close> object: its two methods the dashboard calls, and everything
  else it holds (the player data, the scoring model, the constraints) as \<open>internals\<close>.
\<close>

record 'i selector =
  internals :: 'i
  solve_team_selection :: "solve_args \<Rightarrow> exn + Solution option"
  validate :: "Solution \<Rightarrow> exn + ValidationReport"

text \<open>
  The environment of a run: the import at the top of the script gives the message of
  the \<open>ImportError\<close> or the class, whose constructor takes the data directory and
  can raise; and the file system.
\<close>

record 'i env =
  FPLTeamSelector :: "string + (string \<Rightarrow> exn + 'i selector)"
  files :: filesystem

datatype call = Construct string | Solve solve_args | Validate Solution

record session_state =
  last_params :: "pyval list option"
  solution :: "Solution option"

text \<open>
  \<open>st.session_state\<close> is \<open>None\<close> in the first run of a session, before the script
  has set its two keys.
\<close>

definition initialise :: "session_state option \<Rightarrow> session_state" where
  "initialise ss =
     (case ss of None \<Rightarrow> \<lparr>last_params = None, solution = None\<rparr> | Some s \<Rightarrow> s)"

definition params_changed :: "session_state \<Rightarrow> widgets \<Rightarrow> bool" where
  "params_changed s w = (last_params s \<noteq> Some (current_params w))"

definition should_optimize :: "session_state \<Rightarrow> widgets \<Rightarrow> bool" where
  "should_optimize s w =
     (run_optimization w \<and> (\<not> auto_refresh \<or> params_changed s w \<or> solution s = None))"

definition solve_call :: "widgets \<Rightarrow> solve_args" where
  "solve_call w =
     \<lparr>kw_objective = objective w,
      kw_require_all_starts = require_all_starts w,
      kw_max_per_team_per_position = max_per_team_per_position w,
      kw_exclude_injury_risk = exclude_injury_risk w,
      kw_fixture_weighting = fixture_weighting w,
      kw_last_season_weighting = last_season_weighting w\<rparr>"

subsection \<open>What a run puts on the page\<close>

text \<open>The symbols of the source's literals outside ASCII, as their bytes in UTF-8.\<close>

definition cross_mark :: string where
  "cross_mark = [CHR 0xE2, CHR 0x9D, CHR 0x8C]"

definition check_mark :: string where
  "check_mark = [CHR 0xE2, CHR 0x9C, CHR 0x85]"

definition pound :: string where
  "pound = [CHR 0xC2, CHR 0xA3]"

definition at_most :: string where
  "at_most = [CHR 0xE2, CHR 0x89, CHR 0xA4]"

definition dart :: string where
  "dart = [CHR 0xF0, CHR 0x9F, CHR 0x8E, CHR 0xAF]"

definition clipboard :: string where
  "clipboard = [CHR 0xF0, CHR 0x9F, CHR 0x93, CHR 0x8B]"

definition page_facing_up :: string where
  "page_facing_up = [CHR 0xF0, CHR 0x9F, CHR 0x93, CHR 0x84]"

definition arrows :: string where
  "arrows = [CHR 0xF0, CHR 0x9F, CHR 0x94, CHR 0x84]"

text \<open>
  A displayed value. \<open>Formatted pre d v post\<close> is the f-string
  \<open>pre{v:.df}post\<close>, with \<open>None\<close> for pandas's NaN; \<open>Str v\<close> is \<open>f"{v}"\<close>;
  \<open>Rounded d v\<close> is \<open>v\<close> after \<open>.round(d)\<close>; \<open>Value j\<close> is a value of
  \<open>player_pics.json\<close> that is not a string.
\<close>

datatype cell =
    Text string
  | Formatted string nat "rat option" string
  | Str rat
  | Rounded nat rat
  | Value json

type_synonym row = "(string \<times> cell) list"

text \<open>
  The three data frames the script shows: \<open>df_display\<close>, with its rows in order and
  every row as its columns in order; \<open>team_counts\<close>, the items of
  \<open>by_team_counts\<close> (shown sorted by count, largest first; the order among equal
  counts is left to pandas and not modelled); and \<open>pos_summary\<close>, for each of the four
  positions the total cost, the total points and the count, or \<open>None\<close> for the row of
  NaN of a position without a player.
\<close>

datatype table =
    TeamTable "row list"
  | TeamCounts "(string \<times> int) list"
  | PositionSummary "(string \<times> (cell \<times> cell \<times> nat) option) list"

text \<open>
  The elements of the page. A metric has its label, its value and its delta.
  Tooltips, layout arguments and the spinner are left out; \<open>StGettingStarted\<close> is the
  fixed instructions of the initial state.
\<close>

datatype ui =
    StError string
  | StInfo string
  | StMetric string cell "cell option"
  | StSubheader string
  | StDataframe table
  | StTextArea string string
  | StDownloadButton string "row list" string
  | StGettingStarted

definition and_then :: "exn + 'a \<Rightarrow> ('a \<Rightarrow> exn + 'b) \<Rightarrow> exn + 'b" where
  "and_then r f = (case r of Inl e \<Rightarrow> Inl e | Inr x \<Rightarrow> f x)"

text \<open>\<open>d[k]\<close> on a dict whose key \<open>k\<close> holds \<open>v\<close>, or is absent.\<close>

definition lookup :: "string \<Rightarrow> 'a option \<Rightarrow> exn + 'a" where
  "lookup k v = (case v of None \<Rightarrow> Inl (KeyError k) | Some x \<Rightarrow> Inr x)"

text \<open>\<open>d.get(k, 0)\<close>.\<close>

definition get_or_0 :: "rat option \<Rightarrow> rat" where
  "get_or_0 v = (case v of None \<Rightarrow> 0 | Some x \<Rightarrow> x)"

text \<open>
  Statements in sequence, each raising or adding to the page: what is on the page when
  the first exception is raised stays there.
\<close>

fun run_steps :: "(exn + ui list) list \<Rightarrow> ui list \<times> exn option" where
  "run_steps [] = ([], None)"
| "run_steps (Inl e # rest) = ([], Some e)"
| "run_steps (Inr us # rest) = (case run_steps rest of (vs, r) \<Rightarrow> (us @ vs, r))"

fun collect :: "(exn + 'a) list \<Rightarrow> exn + 'a list" where
  "collect [] = Inr []"
| "collect (Inl e # rest) = Inl e"
| "collect (Inr x # rest) = (case collect rest of Inl e \<Rightarrow> Inl e | Inr xs \<Rightarrow> Inr (x # xs))"

subsubsection \<open>The summary metrics\<close>

definition col1 :: "Solution \<Rightarrow> exn + ui list" where
  "col1 sol =
     and_then (lookup ''total_price'' (total_price sol)) (\<lambda>x.
       Inr [StMetric ''Total Cost'' (Formatted pound 1 (Some x) ''m'')
              (Some (Formatted pound 1 (Some (100 - x)) ''m remaining''))])"

definition col2 :: "Solution \<Rightarrow> exn + ui list" where
  "col2 sol =
     and_then (lookup ''total_proj_points'' (total_proj_points sol)) (\<lambda>x.
       Inr [StMetric ''Projected Points'' (Str x) None])"

definition col3 :: "string \<Rightarrow> Solution \<Rightarrow> exn + ui list" where
  "col3 label sol =
     and_then (lookup ''avg_fixture_difficulty'' (avg_fixture_difficulty sol)) (\<lambda>x.
       Inr [StMetric label (Formatted [] 2 (Some x) []) None])"

definition col4 :: "Solution \<Rightarrow> exn + ui list" where
  "col4 sol =
     (if 0 < get_or_0 (sol_fixture_weighting sol) then
        and_then (lookup ''total_fixture_adjusted_points'' (total_fixture_adjusted_points sol))
          (\<lambda>x. Inr [StMetric ''Fixture-Adjusted Points'' (Formatted [] 1 (Some x) []) None])
      else if 0 < get_or_0 (sol_last_season_weighting sol) then
        and_then
          (lookup ''total_last_season_adjusted_points'' (total_last_season_adjusted_points sol))
          (\<lambda>x. Inr [StMetric ''History-Adjusted Points'' (Formatted [] 1 (Some x) []) None])
      else
        and_then (lookup ''solver_status'' (solver_status sol))
          (\<lambda>s. Inr [StMetric ''Solver Status'' (Text s) None]))"

definition summary :: "string \<Rightarrow> Solution \<Rightarrow> (exn + ui list) list" where
  "summary label sol = [col1 sol, col2 sol, col3 label sol, col4 sol]"

subsubsection \<open>The team table\<close>

definition position_order :: "string list" where
  "position_order = [''GKP'', ''DEF'', ''MID'', ''FWD'']"

text \<open>
  The column \<open>position_order\<close>: the index of the position in the list, and NaN
  (\<open>None\<close>) for a position that is not in it.
\<close>

definition position_order_column :: "player \<Rightarrow> nat option" where
  "position_order_column p =
     map_of (zip position_order [0..<length position_order]) (p_position p)"

text \<open>
  \<open>sort_values(['position_order', 'name'])\<close>: a stable sort on the two columns in
  lexicographic order, NaN after every number, strings compared code point by code
  point (which is the order of their UTF-8 bytes).
\<close>

definition sort_rank :: "player \<Rightarrow> nat" where
  "sort_rank p =
     (case position_order_column p of Some i \<Rightarrow> i | None \<Rightarrow> length position_order)"

definition sort_values :: "player list \<Rightarrow> player list" where
  "sort_values ps = sort_key (\<lambda>p. (sort_rank p, p_name p)) ps"

text \<open>\<open>str\<close> of an int.\<close>

fun digits :: "nat \<Rightarrow> string" where
  "digits n =
     (if n < 10 then [''0123456789'' ! n]
      else digits (n div 10) @ [''0123456789'' ! (n mod 10)])"

definition str_int :: "int \<Rightarrow> string" where
  "str_int i = (if i < 0 then ''-'' @ digits (nat (- i)) else digits (nat i))"

definition type_name :: "json \<Rightarrow> string" where
  "type_name j =
     (case j of
        JNull \<Rightarrow> ''NoneType''
      | JBool b \<Rightarrow> ''bool''
      | JInt i \<Rightarrow> ''int''
      | JFloat x \<Rightarrow> ''float''
      | JStr s \<Rightarrow> ''str''
      | JArr xs \<Rightarrow> ''list''
      | JObj kvs \<Rightarrow> ''dict'')"

text \<open>
  \<open>player_pics.get(k, "")\<close>: only a dict has the method.
\<close>

definition pics_get :: "json \<Rightarrow> string \<Rightarrow> exn + cell" where
  "pics_get player_pics k =
     (case player_pics of
        JObj kvs \<Rightarrow>
          Inr (case map_of kvs k of
                 None \<Rightarrow> Text []
               | Some (JStr url) \<Rightarrow> Text url
               | Some j \<Rightarrow> Value j)
      | j \<Rightarrow>
          Inl (AttributeError
                 ([CHR 0x27] @ type_name j @ [CHR 0x27] @ '' object has no attribute '' @
                  [CHR 0x27] @ ''get'' @ [CHR 0x27])))"

text \<open>
  \<open>player[k]\<close> on a row of the data frame built from the records \<open>df\<close>: the frame
  has the column when some record has the key, and NaN in the rows of the records that
  lack it.
\<close>

definition column_get ::
  "string \<Rightarrow> (player \<Rightarrow> rat option) \<Rightarrow> player list \<Rightarrow> player \<Rightarrow> exn + rat option" where
  "column_get k f df p = (if list_ex (\<lambda>q. f q \<noteq> None) df then Inr (f p) else Inl (KeyError k))"

definition fixture_columns :: "Solution \<Rightarrow> player list \<Rightarrow> player \<Rightarrow> exn + row" where
  "fixture_columns sol df p =
     (if 0 < get_or_0 (sol_fixture_weighting sol) then
        and_then (column_get ''fixture_adjusted_points'' p_fixture_adjusted_points df p)
          (\<lambda>v. Inr [(''Fixture-Adj Points'', Formatted [] 1 v [])])
      else Inr [])"

definition history_columns :: "Solution \<Rightarrow> player list \<Rightarrow> player \<Rightarrow> exn + row" where
  "history_columns sol df p =
     (if 0 < get_or_0 (sol_last_season_weighting sol) then
        and_then (column_get ''current_points_per_gw'' p_current_points_per_gw df p) (\<lambda>a.
        and_then (column_get ''last_season_points_per_gw'' p_last_season_points_per_gw df p) (\<lambda>b.
        and_then (column_get ''last_season_adjusted_points'' p_last_season_adjusted_points df p)
          (\<lambda>c. Inr [(''Current PPG'', Formatted [] 1 a []),
                     (''Last Season PPG'', Formatted [] 1 b []),
                     (''History-Adj Points'', Formatted [] 1 c [])])))
      else Inr [])"

definition display_row :: "json \<Rightarrow> Solution \<Rightarrow> player list \<Rightarrow> player \<Rightarrow> exn + row" where
  "display_row player_pics sol df p =
     and_then (pics_get player_pics (str_int (p_id p))) (\<lambda>pic_url.
     and_then (fixture_columns sol df p) (\<lambda>fixture_cols.
     and_then (history_columns sol df p) (\<lambda>history_cols.
       Inr ([(''Photo'', pic_url),
             (''Name'', Text (p_name p)),
             (''Position'', Text (p_position p)),
             (''Team'', Text (p_team_name p)),
             (''Price'', Formatted pound 1 (Some (p_price p)) ''m''),
             (''Points'', Formatted [] 0 (Some (p_proj_points p)) []),
             (''Fixture Difficulty'', Formatted [] 1 (Some (p_avg_fixture_difficulty_5 p)) []),
             (''Next 5 Fixtures'', Text (p_next_5_fixtures p))]
            @ fixture_cols @ history_cols))))"

text \<open>
  \<open>df_display\<close>. An empty list of records gives a data frame without columns, and
  \<open>selected_players_df['position']\<close> raises.
\<close>

definition team_table :: "filesystem \<Rightarrow> Solution \<Rightarrow> exn + row list" where
  "team_table fs sol =
     (let player_pics = load_player_pics fs data_dir in
      and_then (lookup ''selected_players'' (selected_players sol)) (\<lambda>df.
        if df = [] then Inl (KeyError ''position'')
        else collect (map (display_row player_pics sol df) (sort_values df))))"

definition optimal_team :: "filesystem \<Rightarrow> Solution \<Rightarrow> (exn + ui list) list" where
  "optimal_team fs sol =
     [Inr [StSubheader (dart @ '' Optimal Team'')],
      and_then (team_table fs sol) (\<lambda>df_display. Inr [StDataframe (TeamTable df_display)])]"

subsubsection \<open>Team distribution, position summary, validation and export\<close>

definition team_distribution :: "Solution \<Rightarrow> (exn + ui list) list" where
  "team_distribution sol =
     [Inr [StSubheader ''Team Distribution''],
      and_then (lookup ''by_team_counts'' (by_team_counts sol)) (\<lambda>team_counts.
        Inr [StDataframe (TeamCounts team_counts)])]"

definition pos_summary :: "player list \<Rightarrow> (string \<times> (cell \<times> cell \<times> nat) option) list" where
  "pos_summary df =
     map (\<lambda>pos.
            (pos,
             (case filter (\<lambda>p. p_position p = pos) df of
                [] \<Rightarrow> None
              | g \<Rightarrow> Some (Rounded 1 (sum_list (map p_price g)),
                            Rounded 1 (sum_list (map p_proj_points g)),
                            length g))))
         position_order"

definition position_summary :: "Solution \<Rightarrow> (exn + ui list) list" where
  "position_summary sol =
     [and_then (lookup ''selected_players'' (selected_players sol)) (\<lambda>df.
        if df = [] then Inl (KeyError ''position'')
        else Inr [StSubheader ''Position Summary'',
                  StDataframe (PositionSummary (pos_summary df))])]"

definition status :: "bool \<Rightarrow> cell" where
  "status b = Text (if b then check_mark else cross_mark)"

definition validation_metrics :: "ValidationReport \<Rightarrow> (exn + ui list) list" where
  "validation_metrics validation =
     [Inr [StSubheader (check_mark @ '' Validation''),
           StMetric ''Overall Valid'' (status (valid validation)) None,
           StMetric ''Squad Size (15)'' (status (squad_size validation)) None,
           StMetric (''Budget ('' @ at_most @ pound @ ''100m)'') (status (budget validation)) None,
           StMetric ''Positions (2-5-5-3)'' (status (positions validation)) None,
           StMetric (''Club Limits ('' @ at_most @ ''3)'') (status (club_limits validation)) None]]"

fun join :: "string \<Rightarrow> string list \<Rightarrow> string" where
  "join sep [] = []"
| "join sep [x] = x"
| "join sep (x # y # ys) = x @ sep @ join sep (y # ys)"

definition export :: "filesystem \<Rightarrow> Solution \<Rightarrow> (exn + ui list) list" where
  "export fs sol =
     [Inr [StSubheader (clipboard @ '' Export'')],
      and_then (lookup ''selected_ids'' (selected_ids sol)) (\<lambda>player_ids.
      and_then (team_table fs sol) (\<lambda>df_display.
        Inr [StTextArea ''Player IDs (for FPL import tools):''
               (join '','' (map str_int player_ids)),
             StDownloadButton (page_facing_up @ '' Download as CSV'') df_display
               ''fpl_optimal_team.csv'']))]"

subsection \<open>One run of the script\<close>

text \<open>
  The result of a run: the session state it leaves, the page from the main content
  area on, the calls to the team selector in order, and the exception that ended the
  script, if one was not caught.
\<close>

record run =
  final_state :: "session_state option"
  page :: "ui list"
  core_calls :: "call list"
  uncaught :: "exn option"

definition cannot_load :: "string \<Rightarrow> ui list" where
  "cannot_load IMPORT_ERROR =
     [StError (cross_mark @ '' Cannot load FPL Team Selector: '' @ IMPORT_ERROR),
      StInfo ''Make sure to install required dependencies: `uv add ortools`'']"

definition no_feasible_solution :: "ui list" where
  "no_feasible_solution =
     [StError (cross_mark @ '' No feasible solution found! Try relaxing some constraints.'')]"

definition except_handler :: "exn \<Rightarrow> ui list" where
  "except_handler e =
     [StError (cross_mark @ '' Error: '' @ exn_str e),
      StInfo ''Make sure you have run the data processing script and have valid FPL data files.'']"

text \<open>
  The body of \<open>if solution:\<close> after the two assignments to the session state: the page
  it builds, its calls to the selector, and the exception it raises, if any.
\<close>

definition show_solution ::
  "'i selector \<Rightarrow> filesystem \<Rightarrow> Solution \<Rightarrow> ui list \<times> call list \<times> exn option" where
  "show_solution selector fs sol =
     (case run_steps
             (summary ''Five GameAvg Fixture Difficulty'' sol @ optimal_team fs sol @
              team_distribution sol @ position_summary sol) of
        (us, Some e) \<Rightarrow> (us, [], Some e)
      | (us, None) \<Rightarrow>
          (case validate selector sol of
             Inl e \<Rightarrow> (us, [Validate sol], Some e)
           | Inr validation \<Rightarrow>
               (case run_steps (validation_metrics validation @ export fs sol) of
                  (vs, r) \<Rightarrow> (us @ vs, [Validate sol], r))))"

text \<open>The branch that displays the cached solution; it is outside the \<open>try\<close>.\<close>

definition show_cached ::
  "filesystem \<Rightarrow> session_state \<Rightarrow> widgets \<Rightarrow> Solution \<Rightarrow> ui list \<times> exn option" where
  "show_cached fs s w sol =
     run_steps
       (summary ''Avg Fixture Difficulty'' sol @ optimal_team fs sol @
        [Inr (if params_changed s w \<and> auto_refresh
              then [StInfo (arrows @ '' Parameters changed - optimization will run automatically'')]
              else [])])"

definition dashboard :: "'i env \<Rightarrow> widgets \<Rightarrow> session_state option \<Rightarrow> run" where
  "dashboard env w ss =
     (case FPLTeamSelector env of
        Inl IMPORT_ERROR \<Rightarrow>
          \<lparr>final_state = ss, page = cannot_load IMPORT_ERROR, core_calls = [], uncaught = None\<rparr>
      | Inr cls \<Rightarrow>
          (let s = initialise ss in
           if should_optimize s w then
             (case cls data_dir of
                Inl e \<Rightarrow>
                  \<lparr>final_state = Some s, page = except_handler e,
                   core_calls = [Construct data_dir], uncaught = None\<rparr>
              | Inr selector \<Rightarrow>
                  (case solve_team_selection selector (solve_call w) of
                     Inl e \<Rightarrow>
                       \<lparr>final_state = Some s, page = except_handler e,
                        core_calls = [Construct data_dir, Solve (solve_call w)],
                        uncaught = None\<rparr>
                   | Inr result \<Rightarrow>
                       (case (truthy result, result) of
                          (True, Some sol) \<Rightarrow>
                            (case show_solution selector (files env) sol of
                               (us, calls, r) \<Rightarrow>
                                 \<lparr>final_state =
                                    Some (s\<lparr>solution := Some sol,
                                            last_params := Some (current_params w)\<rparr>),
                                  page = us @ (case r of None \<Rightarrow> [] | Some e \<Rightarrow> except_handler e),
                                  core_calls =
                                    [Construct data_dir, Solve (solve_call w)] @ calls,
                                  uncaught = None\<rparr>)
                        | _ \<Rightarrow>
                            \<lparr>final_state = Some s, page = no_feasible_solution,
                             core_calls = [Construct data_dir, Solve (solve_call w)],
                             uncaught = None\<rparr>)))
           else
             (case solution s of
                Some sol \<Rightarrow>
                  (case show_cached (files env) s w sol of
                     (us, r) \<Rightarrow>
                       \<lparr>final_state = Some s, page = us, core_calls = [], uncaught = r\<rparr>)
              | None \<Rightarrow>
                  \<lparr>final_state = Some s, page = [StGettingStarted], core_calls = [],
                   uncaught = None\<rparr>)))"

subsection \<open>The team selector, from the specification\<close>

text \<open>
  Modelled from the spec: \<open>validate_solution\<close> of \<open>fpl_team_selector\<close>, which is not
  among the sources. Section 4.4 of the specification: the validator recomputes, from
  the selected players alone, that the squad has 15 players, that their total price is at
  most 100.0, that the positions split 2-5-5-3 and that no club has more than 3 players;
  \<open>valid\<close> is the conjunction of the four. A solution without the list of players is
  validated as one with no player.
\<close>

definition count_position :: "string \<Rightarrow> player list \<Rightarrow> nat" where
  "count_position pos ps = length (filter (\<lambda>p. p_position p = pos) ps)"

definition count_club :: "string \<Rightarrow> player list \<Rightarrow> nat" where
  "count_club club ps = length (filter (\<lambda>p. p_team_name p = club) ps)"

definition validate_solution :: "Solution \<Rightarrow> ValidationReport" where
  "validate_solution sol =
     (let ps = (case selected_players sol of None \<Rightarrow> [] | Some ps \<Rightarrow> ps);
          size_ok = (length ps = 15);
          budget_ok = (sum_list (map p_price ps) \<le> 100);
          positions_ok =
            (map (\<lambda>pos. count_position pos ps) position_order = [2, 5, 5, 3]);
          clubs_ok = list_all (\<lambda>club. count_club club ps \<le> 3) (remdups (map p_team_name ps))
      in \<lparr>valid = size_ok \<and> budget_ok \<and> positions_ok \<and> clubs_ok,
          squad_size = size_ok, budget = budget_ok, positions = positions_ok,
          club_limits = clubs_ok\<rparr>)"

text \<open>
  Modelled from the spec: the configuration check of \<open>solve_team_selection\<close>, which is
  not among the sources. Section 7 (a) of the specification: a weighting outside [0, 1]
  or an unrecognised objective is rejected before any solve attempt.
\<close>

definition configuration_error :: "solve_args \<Rightarrow> bool" where
  "configuration_error a =
     (kw_objective a \<notin> {''max_points'', ''max_spend''} \<or>
      kw_fixture_weighting a < 0 \<or> 1 < kw_fixture_weighting a \<or>
      kw_last_season_weighting a < 0 \<or> 1 < kw_last_season_weighting a)"

subsection \<open>Example inputs\<close>


definition no_files :: filesystem where
  "no_files =
     \<lparr>path_exists = (\<lambda>p. Inr False),
      read_text = (\<lambda>p. Inl (Exn ''FileNotFoundError'' p)),
      json_load = (\<lambda>txt. Inl (Exn ''JSONDecodeError'' ''Expecting value''))\<rparr>"

text \<open>A squad of fifteen: 2-5-5-3, three players from each of five clubs, 100.0 in all.\<close>

definition mk_player :: "int \<Rightarrow> string \<Rightarrow> string \<Rightarrow> string \<Rightarrow> rat \<Rightarrow> player" where
  "mk_player i n pos club price =
     \<lparr>p_id = i, p_name = n, p_position = pos, p_team_name = club, p_price = price,
      p_proj_points = 50, p_avg_fixture_difficulty_5 = 3, p_next_5_fixtures = ''ARS (H)'',
      p_fixture_adjusted_points = None, p_current_points_per_gw = None,
      p_last_season_points_per_gw = None, p_last_season_adjusted_points = None\<rparr>"

definition squad_players :: "player list" where
  "squad_players =
     [mk_player 1 ''Raya'' ''GKP'' ''A'' 5, mk_player 2 ''Pope'' ''GKP'' ''B'' 5,
      mk_player 3 ''Saliba'' ''DEF'' ''A'' 6, mk_player 4 ''Trippier'' ''DEF'' ''B'' 6,
      mk_player 5 ''Dias'' ''DEF'' ''C'' 6, mk_player 6 ''Konate'' ''DEF'' ''D'' 6,
      mk_player 7 ''Colwill'' ''DEF'' ''E'' 6,
      mk_player 8 ''Saka'' ''MID'' ''A'' 8, mk_player 9 ''Gordon'' ''MID'' ''B'' 7,
      mk_player 10 ''Foden'' ''MID'' ''C'' 8, mk_player 11 ''Salah'' ''MID'' ''D'' 8,
      mk_player 12 ''Palmer'' ''MID'' ''E'' 8,
      mk_player 13 ''Haaland'' ''FWD'' ''C'' 8, mk_player 14 ''Isak'' ''FWD'' ''D'' 7,
      mk_player 15 ''Jackson'' ''FWD'' ''E'' 6]"

definition squad :: Solution where
  "squad = empty_dict\<lparr>selected_players := Some squad_players\<rparr>"






text \<open>
  The widgets as the script creates them; selectors whose solve returns a given result
  or raises a given exception, with the validator of the specification; environments
  with such a selector, and one whose constructor raises; a session state left by a
  solve with other parameters.
\<close>

definition default_widgets :: widgets where
  "default_widgets =
     \<lparr>objective = ''max_points'', fixture_weighting = 0, last_season_weighting = 0,
      require_all_starts = True, max_per_team_per_position = True,
      exclude_injury_risk = True, optimize_button = False\<rparr>"

definition selector_returning :: "Solution option \<Rightarrow> unit selector" where
  "selector_returning r =
     \<lparr>internals = (), solve_team_selection = (\<lambda>a. Inr r),
      validate = (\<lambda>sol. Inr (validate_solution sol))\<rparr>"

definition selector_raising :: "exn \<Rightarrow> unit selector" where
  "selector_raising e =
     \<lparr>internals = (), solve_team_selection = (\<lambda>a. Inl e),
      validate = (\<lambda>sol. Inr (validate_solution sol))\<rparr>"

definition env_with :: "unit selector \<Rightarrow> unit env" where
  "env_with selector = \<lparr>FPLTeamSelector = Inr (\<lambda>d. Inr selector), files = no_files\<rparr>"

definition env_without_data :: "unit env" where
  "env_without_data =
     \<lparr>FPLTeamSelector = Inr (\<lambda>d. Inl (Exn ''FileNotFoundError'' ''players.csv'')),
      files = no_files\<rparr>"

definition earlier_state :: session_state where
  "earlier_state =
     \<lparr>last_params = Some (current_params (default_widgets\<lparr>objective := ''max_spend''\<rparr>)),
      solution = Some squad\<rparr>"

text \<open>
  A session state left by a solve with the current parameters; widgets with a fixture
  weighting of 0.3; a selector that holds player data as its internals, and an
  environment with it.
\<close>

definition later_state :: session_state where
  "later_state = \<lparr>last_params = Some (current_params default_widgets), solution = Some squad\<rparr>"

definition fixture_widgets :: widgets where
  "fixture_widgets = default_widgets\<lparr>fixture_weighting := 3 / 10\<rparr>"



section \<open>Properties\<close>

subsection \<open>load\_player\_pics\<close>




subsection \<open>validate\_solution\<close>

lemma list_all_clubs:
  "list_all (\<lambda>club. count_club club ps \<le> 3) (remdups (map p_team_name ps)) =
   (\<forall>club. count_club club ps \<le> 3)"
proof -
  have "count_club club ps = 0" if "club \<notin> set (map p_team_name ps)" for club
    using that by (auto simp: count_club_def filter_empty_conv)
  then have "count_club club ps \<le> 3" if "club \<notin> set (map p_team_name ps)" for club
    using that by simp
  then show ?thesis
    unfolding list_all_iff set_remdups by blast
qed

lemma squad_counts:
  "length squad_players = 15"
  "sum_list (map p_price squad_players) = 100"
  "count_position ''GKP'' squad_players = 2"
  "count_position ''DEF'' squad_players = 5"
  "count_position ''MID'' squad_players = 5"
  "count_position ''FWD'' squad_players = 3"
  by (simp_all add: squad_players_def mk_player_def count_position_def)

text \<open>
  C1: for every solution with its list of selected players, the report's \<open>valid\<close> is
  true if and only if the squad has 15 players, their total price is at most 100.0,
  there are exactly 2 GKP, 5 DEF, 5 MID and 3 FWD, and every club has at most 3 of the
  players; \<open>valid\<close> is the conjunction of the four booleans \<open>squad_size\<close>,
  \<open>budget\<close>, \<open>positions\<close> and \<open>club_limits\<close>, each of which reports its own check.
\<close>

theorem validate_solution_valid_iff:
  assumes "selected_players sol = Some ps"
  shows "(valid (validate_solution sol) \<longleftrightarrow>
            length ps = 15 \<and> sum_list (map p_price ps) \<le> 100 \<and>
            count_position ''GKP'' ps = 2 \<and> count_position ''DEF'' ps = 5 \<and>
            count_position ''MID'' ps = 5 \<and> count_position ''FWD'' ps = 3 \<and>
            (\<forall>club. count_club club ps \<le> 3)) \<and>
         (valid (validate_solution sol) \<longleftrightarrow>
            squad_size (validate_solution sol) \<and> budget (validate_solution sol) \<and>
            positions (validate_solution sol) \<and> club_limits (validate_solution sol)) \<and>
         (squad_size (validate_solution sol) \<longleftrightarrow> length ps = 15) \<and>
         (budget (validate_solution sol) \<longleftrightarrow> sum_list (map p_price ps) \<le> 100) \<and>
         (positions (validate_solution sol) \<longleftrightarrow>
            count_position ''GKP'' ps = 2 \<and> count_position ''DEF'' ps = 5 \<and>
            count_position ''MID'' ps = 5 \<and> count_position ''FWD'' ps = 3) \<and>
         (club_limits (validate_solution sol) \<longleftrightarrow> (\<forall>club. count_club club ps \<le> 3))"
  using assms
  by (simp add: validate_solution_def Let_def position_order_def list_all_clubs)

theorem validate_solution_valid_iff_witness:
  "selected_players squad = Some squad_players \<and> valid (validate_solution squad) \<and>
   length squad_players = 15 \<and> sum_list (map p_price squad_players) = 100 \<and>
   (\<forall>club. count_club club squad_players \<le> 3)"
proof -
  have sel: "selected_players squad = Some squad_players"
    by (simp add: squad_def)
  have clubs: "\<forall>club. count_club club squad_players \<le> 3"
    unfolding list_all_clubs [symmetric]
    by (simp add: squad_players_def mk_player_def count_club_def)
  show ?thesis
    using validate_solution_valid_iff [OF sel] sel clubs squad_counts by simp
qed

subsection \<open>The team table\<close>

























subsection \<open>Missing weighting keys\<close>










subsection \<open>Runs of the dashboard\<close>

lemma dashboard_not_feasible:
  assumes "FPLTeamSelector env = Inr cls" and "cls data_dir = Inr selector"
    and "should_optimize (initialise ss) w"
    and "solve_team_selection selector (solve_call w) = Inr r" and "\<not> truthy r"
  shows "dashboard env w ss =
     \<lparr>final_state = Some (initialise ss), page = no_feasible_solution,
      core_calls = [Construct data_dir, Solve (solve_call w)], uncaught = None\<rparr>"
  using assms by (simp add: dashboard_def Let_def split: option.splits)

lemma dashboard_solve_raises:
  assumes "FPLTeamSelector env = Inr cls" and "cls data_dir = Inr selector"
    and "should_optimize (initialise ss) w"
    and "solve_team_selection selector (solve_call w) = Inl e"
  shows "dashboard env w ss =
     \<lparr>final_state = Some (initialise ss), page = except_handler e,
      core_calls = [Construct data_dir, Solve (solve_call w)], uncaught = None\<rparr>"
  using assms by (simp add: dashboard_def Let_def)

lemma dashboard_constructor_raises:
  assumes "FPLTeamSelector env = Inr cls" and "cls data_dir = Inl e"
    and "should_optimize (initialise ss) w"
  shows "dashboard env w ss =
     \<lparr>final_state = Some (initialise ss), page = except_handler e,
      core_calls = [Construct data_dir], uncaught = None\<rparr>"
  using assms by (simp add: dashboard_def Let_def)

lemma dashboard_solved:
  assumes "FPLTeamSelector env = Inr cls" and "cls data_dir = Inr selector"
    and "should_optimize (initialise ss) w"
    and "solve_team_selection selector (solve_call w) = Inr (Some sol)" and "sol \<noteq> empty_dict"
  shows "dashboard env w ss =
     (case show_solution selector (files env) sol of
        (us, calls, r) \<Rightarrow>
          \<lparr>final_state =
             Some ((initialise ss)\<lparr>solution := Some sol, last_params := Some (current_params w)\<rparr>),
           page = us @ (case r of None \<Rightarrow> [] | Some e \<Rightarrow> except_handler e),
           core_calls = [Construct data_dir, Solve (solve_call w)] @ calls,
           uncaught = None\<rparr>)"
  using assms by (simp add: dashboard_def Let_def truthy_def)

lemma dashboard_cached:
  assumes "FPLTeamSelector env = Inr cls"
    and "\<not> should_optimize (initialise ss) w"
  shows "dashboard env w ss =
     (case solution (initialise ss) of
        Some sol \<Rightarrow>
          (case show_cached (files env) (initialise ss) w sol of
             (us, r) \<Rightarrow>
               \<lparr>final_state = Some (initialise ss), page = us, core_calls = [], uncaught = r\<rparr>)
      | None \<Rightarrow>
          \<lparr>final_state = Some (initialise ss), page = [StGettingStarted], core_calls = [],
           uncaught = None\<rparr>)"
  using assms by (simp add: dashboard_def Let_def)

lemma should_optimize_iff:
  "should_optimize s w \<longleftrightarrow> last_params s \<noteq> Some (current_params w) \<or> solution s = None"
  by (simp add: should_optimize_def run_optimization_def auto_refresh_def params_changed_def)

lemma show_solution_calls:
  "fst (snd (show_solution selector fs sol)) = [] \<or>
   fst (snd (show_solution selector fs sol)) = [Validate sol]"
  by (simp add: show_solution_def split: prod.splits option.splits sum.splits)

lemma messages_differ:
  "set (except_handler e) \<inter> set no_feasible_solution = {}"
  by (simp add: except_handler_def no_feasible_solution_def)

text \<open>
  C2: in every run that takes the solve path with a selector, a falsy result of
  \<open>solve_team_selection\<close> (\<open>None\<close> or the empty dict) puts exactly the message
  "No feasible solution found! Try relaxing some constraints." on the page, and an
  exception raised by \<open>solve_team_selection\<close> puts exactly the message "Error: "
  with the text of the exception and the hint about the data files there; in both cases
  no exception leaves the script, and the two pages have no element in common.
\<close>

theorem infeasible_and_error_reported:
  assumes "FPLTeamSelector env = Inr cls" and "cls data_dir = Inr selector"
    and "should_optimize (initialise ss) w"
  shows "(\<forall>r. solve_team_selection selector (solve_call w) = Inr r \<and> \<not> truthy r \<longrightarrow>
            page (dashboard env w ss) =
              [StError (cross_mark @
                 '' No feasible solution found! Try relaxing some constraints.'')] \<and>
            uncaught (dashboard env w ss) = None) \<and>
         (\<forall>e. solve_team_selection selector (solve_call w) = Inl e \<longrightarrow>
            page (dashboard env w ss) =
              [StError (cross_mark @ '' Error: '' @ exn_str e),
               StInfo ''Make sure you have run the data processing script and have valid FPL data files.''] \<and>
            uncaught (dashboard env w ss) = None) \<and>
         (\<forall>e. set (except_handler e) \<inter> set no_feasible_solution = {})"
proof -
  have "page (dashboard env w ss) = no_feasible_solution \<and> uncaught (dashboard env w ss) = None"
    if "solve_team_selection selector (solve_call w) = Inr r" "\<not> truthy r" for r
    using dashboard_not_feasible [OF assms that] by simp
  moreover
  have "page (dashboard env w ss) = except_handler e \<and> uncaught (dashboard env w ss) = None"
    if "solve_team_selection selector (solve_call w) = Inl e" for e
    using dashboard_solve_raises [OF assms that] by simp
  ultimately show ?thesis
    using messages_differ by (simp add: no_feasible_solution_def except_handler_def)
qed

lemma env_with_import: "FPLTeamSelector (env_with selector) = Inr (\<lambda>d. Inr selector)"
  by (simp add: env_with_def)

lemma first_run_optimizes: "should_optimize (initialise None) w"
  by (simp add: should_optimize_iff initialise_def)

theorem infeasible_and_error_reported_witness:
  "page (dashboard (env_with (selector_returning None)) default_widgets None) =
     [StError (cross_mark @ '' No feasible solution found! Try relaxing some constraints.'')] \<and>
   page (dashboard (env_with (selector_returning (Some empty_dict))) default_widgets None) =
     [StError (cross_mark @ '' No feasible solution found! Try relaxing some constraints.'')] \<and>
   page (dashboard (env_with (selector_raising (Exn ''RuntimeError'' ''solver failed'')))
           default_widgets None) =
     [StError (cross_mark @ '' Error: solver failed''),
      StInfo ''Make sure you have run the data processing script and have valid FPL data files.'']"
proof -
  have a: "solve_team_selection (selector_returning r) (solve_call default_widgets) = Inr r" for r
    by (simp add: selector_returning_def)
  have b: "solve_team_selection (selector_raising e) (solve_call default_widgets) = Inl e" for e
    by (simp add: selector_raising_def)
  have t: "\<not> truthy None" "\<not> truthy (Some empty_dict)"
    by (simp_all add: truthy_def)
  show ?thesis
    using infeasible_and_error_reported [OF env_with_import refl first_run_optimizes,
        of "selector_returning None" default_widgets]
      infeasible_and_error_reported [OF env_with_import refl first_run_optimizes,
        of "selector_returning (Some empty_dict)" default_widgets]
      infeasible_and_error_reported [OF env_with_import refl first_run_optimizes,
        of "selector_raising (Exn ''RuntimeError'' ''solver failed'')" default_widgets]
      a b t
    by simp
qed

text \<open>
  C8: when \<open>solve_team_selection\<close> raises or returns a falsy result, the run leaves
  the session state as it found it after the initialisation of the two keys: a state
  that an earlier run left keeps its \<open>solution\<close> and its \<open>last_params\<close>.
\<close>

theorem failed_solve_keeps_session_state:
  assumes "FPLTeamSelector env = Inr cls" and "cls data_dir = Inr selector"
    and "(\<exists>e. solve_team_selection selector (solve_call w) = Inl e) \<or>
         (\<exists>r. solve_team_selection selector (solve_call w) = Inr r \<and> \<not> truthy r)"
  shows "final_state (dashboard env w ss) = Some (initialise ss) \<and>
         (\<forall>s. ss = Some s \<longrightarrow>
            final_state (dashboard env w ss) = Some s \<and>
            map_option solution (final_state (dashboard env w ss)) = Some (solution s) \<and>
            map_option last_params (final_state (dashboard env w ss)) = Some (last_params s))"
proof -
  have "final_state (dashboard env w ss) = Some (initialise ss)"
  proof (cases "should_optimize (initialise ss) w")
    case True
    from assms(3) show ?thesis
    proof
      assume "\<exists>e. solve_team_selection selector (solve_call w) = Inl e"
      then obtain e where "solve_team_selection selector (solve_call w) = Inl e" ..
      from dashboard_solve_raises [OF assms(1,2) True this] show ?thesis by simp
    next
      assume "\<exists>r. solve_team_selection selector (solve_call w) = Inr r \<and> \<not> truthy r"
      then obtain r where "solve_team_selection selector (solve_call w) = Inr r" "\<not> truthy r"
        by blast
      from dashboard_not_feasible [OF assms(1,2) True this] show ?thesis by simp
    qed
  next
    case False
    from dashboard_cached [OF assms(1) False] show ?thesis
      by (simp split: option.splits prod.splits)
  qed
  then show ?thesis
    by (auto simp: initialise_def)
qed

theorem failed_solve_keeps_session_state_witness:
  "should_optimize earlier_state default_widgets \<and>
   final_state (dashboard (env_with (selector_returning None)) default_widgets (Some earlier_state)) =
     Some earlier_state \<and>
   final_state (dashboard (env_with (selector_raising (Exn ''RuntimeError'' ''solver failed'')))
       default_widgets (Some earlier_state)) = Some earlier_state"
proof -
  have opt: "should_optimize earlier_state default_widgets"
    by (simp add: should_optimize_iff earlier_state_def current_params_def default_widgets_def)
  have a: "(\<exists>e. solve_team_selection (selector_returning None) (solve_call default_widgets) = Inl e) \<or>
      (\<exists>r. solve_team_selection (selector_returning None) (solve_call default_widgets) = Inr r \<and>
           \<not> truthy r)"
    by (simp add: selector_returning_def truthy_def)
  have b: "(\<exists>e. solve_team_selection (selector_raising (Exn ''RuntimeError'' ''solver failed''))
              (solve_call default_widgets) = Inl e) \<or>
      (\<exists>r. solve_team_selection (selector_raising (Exn ''RuntimeError'' ''solver failed''))
              (solve_call default_widgets) = Inr r \<and> \<not> truthy r)"
    by (simp add: selector_raising_def)
  show ?thesis
    using opt failed_solve_keeps_session_state [OF env_with_import refl a, of "Some earlier_state"]
      failed_solve_keeps_session_state [OF env_with_import refl b, of "Some earlier_state"]
    by (simp add: initialise_def)
qed

lemma core_calls_optimize:
  assumes "FPLTeamSelector env = Inr cls" and "cls data_dir = Inr selector"
    and "should_optimize (initialise ss) w"
  shows "core_calls (dashboard env w ss) = [Construct data_dir, Solve (solve_call w)] \<or>
         (\<exists>sol. solve_team_selection selector (solve_call w) = Inr (Some sol) \<and>
            core_calls (dashboard env w ss) =
              [Construct data_dir, Solve (solve_call w), Validate sol])"
proof (cases "solve_team_selection selector (solve_call w)")
  case (Inl e)
  from dashboard_solve_raises [OF assms Inl] show ?thesis by simp
next
  case (Inr r)
  show ?thesis
  proof (cases "truthy r")
    case False
    from dashboard_not_feasible [OF assms Inr False] show ?thesis by simp
  next
    case True
    then obtain sol where r: "r = Some sol" and sol: "sol \<noteq> empty_dict"
      by (auto simp: truthy_def split: option.splits)
    from dashboard_solved [OF assms Inr [unfolded r] sol]
      show_solution_calls [of selector "files env" sol] Inr r
    show ?thesis
      by (auto split: prod.splits)
  qed
qed

lemma core_calls_no_optimize:
  assumes "FPLTeamSelector env = Inr cls" and "\<not> should_optimize (initialise ss) w"
  shows "core_calls (dashboard env w ss) = []"
  using dashboard_cached [OF assms] by (simp split: option.splits prod.splits)

lemma core_calls_no_import:
  assumes "FPLTeamSelector env = Inl msg"
  shows "core_calls (dashboard env w ss) = []"
  using assms by (simp add: dashboard_def)

lemma core_calls_cases:
  "core_calls (dashboard env w ss) = [] \<or>
   core_calls (dashboard env w ss) = [Construct data_dir] \<or>
   core_calls (dashboard env w ss) = [Construct data_dir, Solve (solve_call w)] \<or>
   (\<exists>sol. core_calls (dashboard env w ss) =
      [Construct data_dir, Solve (solve_call w), Validate sol])"
proof (cases "FPLTeamSelector env")
  case (Inl msg)
  then show ?thesis by (simp add: core_calls_no_import)
next
  case (Inr cls)
  show ?thesis
  proof (cases "should_optimize (initialise ss) w")
    case False
    with Inr show ?thesis by (simp add: core_calls_no_optimize)
  next
    case True
    show ?thesis
    proof (cases "cls data_dir")
      case (Inl e)
      from dashboard_constructor_raises [OF Inr Inl True] show ?thesis by simp
    next
      case inr: (Inr selector)
      from core_calls_optimize [OF Inr inr True] show ?thesis by blast
    qed
  qed
qed

lemma solve_calls:
  assumes "Solve a \<in> set (core_calls (dashboard env w ss))"
  shows "a = solve_call w"
  using assms core_calls_cases [of env w ss] by auto

text \<open>
  C4, as the claim states it, fails twice. The tuple \<open>current_params\<close> has seven
  fields, not six: the objective, the two weightings, the three booleans and the data
  directory. And in the first run of a session, where no solution is cached, a
  constructor of the selector that raises ends the \<open>try\<close> before
  \<open>solve_team_selection\<close> is called.
\<close>

theorem current_params_counterexample:
  "length (current_params default_widgets) = 7 \<and>
   length (current_params default_widgets) \<noteq> 6 \<and>
   last_params (initialise None) \<noteq> Some (current_params default_widgets) \<and>
   solution (initialise None) = None \<and>
   Solve (solve_call default_widgets) \<notin>
     set (core_calls (dashboard env_without_data default_widgets None))"
proof -
  have "core_calls (dashboard env_without_data default_widgets None) = [Construct data_dir]"
    using dashboard_constructor_raises
      [of env_without_data "\<lambda>d. Inl (Exn ''FileNotFoundError'' ''players.csv'')" _ None
          default_widgets]
    by (simp add: env_without_data_def first_run_optimizes)
  then show ?thesis
    by (simp add: current_params_def initialise_def)
qed

text \<open>
  C4, amended: with \<open>auto_refresh\<close> on and the selector imported, a run enters the
  solve path (it constructs the selector and, when the constructor returns one, calls
  \<open>solve_team_selection\<close> with the current arguments) if and only if the seven-field
  tuple of the parameters differs from the tuple recorded at the last successful solve
  or no solution is cached in the session state. When the tuple is unchanged and a
  solution is cached, the run calls nothing of the selector, displays the cached
  solution and leaves the session state as it is.
\<close>

theorem solve_iff_params_changed:
  assumes "FPLTeamSelector env = Inr cls"
  shows "length (current_params w) = 7 \<and>
    (Construct data_dir \<in> set (core_calls (dashboard env w ss)) \<longleftrightarrow>
       last_params (initialise ss) \<noteq> Some (current_params w) \<or>
       solution (initialise ss) = None) \<and>
    (\<forall>selector. cls data_dir = Inr selector \<longrightarrow>
       (Solve (solve_call w) \<in> set (core_calls (dashboard env w ss)) \<longleftrightarrow>
          last_params (initialise ss) \<noteq> Some (current_params w) \<or>
          solution (initialise ss) = None)) \<and>
    (\<forall>sol. last_params (initialise ss) = Some (current_params w) \<and>
            solution (initialise ss) = Some sol \<longrightarrow>
       core_calls (dashboard env w ss) = [] \<and>
       (page (dashboard env w ss), uncaught (dashboard env w ss)) =
         show_cached (files env) (initialise ss) w sol \<and>
       final_state (dashboard env w ss) = Some (initialise ss))"
proof -
  have len: "length (current_params w) = 7"
    by (simp add: current_params_def)
  have construct: "Construct data_dir \<in> set (core_calls (dashboard env w ss)) \<longleftrightarrow>
      should_optimize (initialise ss) w"
  proof (cases "should_optimize (initialise ss) w")
    case False
    with assms show ?thesis by (simp add: core_calls_no_optimize)
  next
    case True
    show ?thesis
    proof (cases "cls data_dir")
      case (Inl e)
      from dashboard_constructor_raises [OF assms Inl True] True show ?thesis by simp
    next
      case (Inr selector)
      from core_calls_optimize [OF assms Inr True] True show ?thesis by auto
    qed
  qed
  have solve: "Solve (solve_call w) \<in> set (core_calls (dashboard env w ss)) \<longleftrightarrow>
      should_optimize (initialise ss) w"
    if "cls data_dir = Inr selector" for selector
  proof (cases "should_optimize (initialise ss) w")
    case False
    with assms show ?thesis by (simp add: core_calls_no_optimize)
  next
    case True
    from core_calls_optimize [OF assms that True] True show ?thesis by auto
  qed
  have cached: "core_calls (dashboard env w ss) = [] \<and>
       (page (dashboard env w ss), uncaught (dashboard env w ss)) =
         show_cached (files env) (initialise ss) w sol \<and>
       final_state (dashboard env w ss) = Some (initialise ss)"
    if "last_params (initialise ss) = Some (current_params w)"
       "solution (initialise ss) = Some sol" for sol
  proof -
    from that have "\<not> should_optimize (initialise ss) w"
      by (simp add: should_optimize_iff)
    from dashboard_cached [OF assms this] that(2) show ?thesis
      by (simp split: prod.splits)
  qed
  show ?thesis
    using len construct solve cached by (simp add: should_optimize_iff)
qed

theorem solve_iff_params_changed_witness:
  "Solve (solve_call default_widgets) \<in>
     set (core_calls (dashboard (env_with (selector_returning None)) default_widgets None)) \<and>
   Solve (solve_call default_widgets) \<in>
     set (core_calls (dashboard (env_with (selector_returning None)) default_widgets
            (Some earlier_state))) \<and>
   core_calls (dashboard (env_with (selector_returning None)) default_widgets
            (Some later_state)) = [] \<and>
   page (dashboard (env_with (selector_returning None)) default_widgets (Some later_state)) =
     fst (show_cached no_files later_state default_widgets squad)"
proof -
  have a: "solution (initialise None) = None"
    by (simp add: initialise_def)
  have b: "last_params (initialise (Some earlier_state)) \<noteq> Some (current_params default_widgets)"
    by (simp add: initialise_def earlier_state_def current_params_def default_widgets_def)
  have c: "last_params (initialise (Some later_state)) = Some (current_params default_widgets)"
    "solution (initialise (Some later_state)) = Some squad"
    "initialise (Some later_state) = later_state"
    by (simp_all add: initialise_def later_state_def)
  have f: "files (env_with (selector_returning None)) = no_files"
    by (simp add: env_with_def)
  show ?thesis
    using solve_iff_params_changed [OF env_with_import [of "selector_returning None"],
        where w = default_widgets and ss = None]
      solve_iff_params_changed [OF env_with_import [of "selector_returning None"],
        where w = default_widgets and ss = "Some earlier_state"]
      solve_iff_params_changed [OF env_with_import [of "selector_returning None"],
        where w = default_widgets and ss = "Some later_state"]
      a b c f
    by (auto simp: fst_def split: prod.splits)
qed

lemma slider_steps:
  assumes "slider_returns \<lparr>min_value = 0, max_value = 1, initial_value = 0, step = 1 / 10\<rparr> v"
  shows "0 \<le> v \<and> v \<le> 1 \<and> (\<exists>k::nat. k \<le> 10 \<and> v = of_nat k / 10)"
proof -
  from assms have bounds: "0 \<le> v" "v \<le> 1"
    by (simp_all add: slider_returns_def)
  from assms obtain n :: int where n: "v * 10 = of_int n"
    by (auto simp: slider_returns_def)
  from bounds have "0 \<le> v * 10" "v * 10 \<le> 10"
    by simp_all
  then have "0 \<le> n" "n \<le> 10"
    unfolding n by simp_all
  moreover from n have "v = of_int n / 10"
    by simp
  ultimately have "nat n \<le> 10 \<and> v = of_nat (nat n) / 10"
    by simp
  with bounds show ?thesis
    by blast
qed

text \<open>
  C3: when the widgets return values within their declared bounds, every call of
  \<open>solve_team_selection\<close> in a run passes an objective that is \<open>max_points\<close> or
  \<open>max_spend\<close> and two weightings in [0, 1] that are a whole number of tenths, so
  the call is never a configuration error.
\<close>

theorem solve_call_in_bounds:
  assumes "widgets_in_bounds w"
  shows "\<forall>a. Solve a \<in> set (core_calls (dashboard env w ss)) \<longrightarrow>
           \<not> configuration_error a \<and>
           kw_objective a \<in> {''max_points'', ''max_spend''} \<and>
           0 \<le> kw_fixture_weighting a \<and> kw_fixture_weighting a \<le> 1 \<and>
           (\<exists>k::nat. k \<le> 10 \<and> kw_fixture_weighting a = of_nat k / 10) \<and>
           0 \<le> kw_last_season_weighting a \<and> kw_last_season_weighting a \<le> 1 \<and>
           (\<exists>k::nat. k \<le> 10 \<and> kw_last_season_weighting a = of_nat k / 10)"
proof (intro allI impI)
  fix a
  assume "Solve a \<in> set (core_calls (dashboard env w ss))"
  then have a: "a = solve_call w"
    by (rule solve_calls)
  from assms have obj: "objective w \<in> {''max_points'', ''max_spend''}"
    by (simp add: widgets_in_bounds_def selectbox_returns_def objective_options_def)
  from assms have
    "slider_returns \<lparr>min_value = 0, max_value = 1, initial_value = 0, step = 1 / 10\<rparr>
       (fixture_weighting w)"
    by (simp add: widgets_in_bounds_def fixture_weighting_slider_def)
  then have
    fw: "0 \<le> fixture_weighting w \<and> fixture_weighting w \<le> 1 \<and>
         (\<exists>k::nat. k \<le> 10 \<and> fixture_weighting w = of_nat k / 10)"
    by (rule slider_steps)
  from assms have
    "slider_returns \<lparr>min_value = 0, max_value = 1, initial_value = 0, step = 1 / 10\<rparr>
       (last_season_weighting w)"
    by (simp add: widgets_in_bounds_def last_season_weighting_slider_def)
  then have
    lw: "0 \<le> last_season_weighting w \<and> last_season_weighting w \<le> 1 \<and>
         (\<exists>k::nat. k \<le> 10 \<and> last_season_weighting w = of_nat k / 10)"
    by (rule slider_steps)
  from obj fw lw have "\<not> configuration_error (solve_call w)"
    by (simp add: configuration_error_def solve_call_def not_less)
  with obj fw lw show "\<not> configuration_error a \<and>
           kw_objective a \<in> {''max_points'', ''max_spend''} \<and>
           0 \<le> kw_fixture_weighting a \<and> kw_fixture_weighting a \<le> 1 \<and>
           (\<exists>k::nat. k \<le> 10 \<and> kw_fixture_weighting a = of_nat k / 10) \<and>
           0 \<le> kw_last_season_weighting a \<and> kw_last_season_weighting a \<le> 1 \<and>
           (\<exists>k::nat. k \<le> 10 \<and> kw_last_season_weighting a = of_nat k / 10)"
    unfolding a by (simp add: solve_call_def)
qed

theorem solve_call_in_bounds_witness:
  "widgets_in_bounds fixture_widgets \<and>
   core_calls (dashboard (env_with (selector_returning None)) fixture_widgets None) =
     [Construct data_dir, Solve (solve_call fixture_widgets)] \<and>
   \<not> configuration_error (solve_call fixture_widgets) \<and>
   kw_fixture_weighting (solve_call fixture_widgets) = 3 / 10"
proof -
  have b: "widgets_in_bounds fixture_widgets"
    by (simp add: widgets_in_bounds_def fixture_widgets_def default_widgets_def
        selectbox_returns_def objective_options_def slider_returns_def
        fixture_weighting_slider_def last_season_weighting_slider_def)
  have r: "solve_team_selection (selector_returning None) (solve_call fixture_widgets) = Inr None"
    by (simp add: selector_returning_def)
  have c: "core_calls (dashboard (env_with (selector_returning None)) fixture_widgets None) =
     [Construct data_dir, Solve (solve_call fixture_widgets)]"
    using dashboard_not_feasible [OF env_with_import refl first_run_optimizes r]
    by (simp add: truthy_def)
  have "kw_fixture_weighting (solve_call fixture_widgets) = 3 / 10"
    by (simp add: solve_call_def fixture_widgets_def)
  with solve_call_in_bounds [OF b, of "env_with (selector_returning None)" None] b c
  show ?thesis
    by simp
qed




end
